theory Spec2Isabelle
  imports Complex_Main "HOL-Library.Word"
begin

section \<open>Strings and numbers of the Go standard library\<close>

text \<open>
  A Go string is a sequence of bytes, here a \<open>string\<close> (a list of \<open>char\<close>, one per
  byte). The functions of this section stand for \<open>strings.ToLower\<close>,
  \<open>strings.ToUpper\<close>, \<open>strings.Fields\<close>, \<open>strconv.Atoi\<close> and the verb \<open>%d\<close> of
  \<open>fmt.Sprintf\<close>. They agree with Go on ASCII text; a byte above 0x7F is kept as it is
  and is never white space.
\<close>

definition lower_byte :: "char \<Rightarrow> char" where
  "lower_byte c =
     (let n = (of_char c :: nat) in if 65 \<le> n \<and> n \<le> 90 then char_of (n + 32) else c)"

definition upper_byte :: "char \<Rightarrow> char" where
  "upper_byte c =
     (let n = (of_char c :: nat) in if 97 \<le> n \<and> n \<le> 122 then char_of (n - 32) else c)"

definition ToLower :: "string \<Rightarrow> string" where
  "ToLower s = map lower_byte s"

definition ToUpper :: "string \<Rightarrow> string" where
  "ToUpper s = map upper_byte s"

definition isSpace :: "char \<Rightarrow> bool" where
  "isSpace c = (let n = (of_char c :: nat) in (9 \<le> n \<and> n \<le> 13) \<or> n = 32)"

text \<open>\<open>Fields_from w s\<close>: the fields of \<open>s\<close>, where \<open>w\<close> holds (reversed) the bytes
  of the field being read.\<close>

fun Fields_from :: "string \<Rightarrow> string \<Rightarrow> string list" where
  "Fields_from w [] = (if w = [] then [] else [rev w])"
| "Fields_from w (c # cs) =
     (if isSpace c then (if w = [] then Fields_from [] cs else rev w # Fields_from [] cs)
      else Fields_from (c # w) cs)"

definition Fields :: "string \<Rightarrow> string list" where
  "Fields s = Fields_from [] s"

definition digit_of :: "char \<Rightarrow> nat option" where
  "digit_of c =
     (let n = (of_char c :: nat) in if 48 \<le> n \<and> n \<le> 57 then Some (n - 48) else None)"

fun digits_value :: "nat \<Rightarrow> string \<Rightarrow> nat option" where
  "digits_value acc [] = Some acc"
| "digits_value acc (c # cs) =
     (case digit_of c of None \<Rightarrow> None | Some d \<Rightarrow> digits_value (10 * acc + d) cs)"

text \<open>\<open>strconv.Atoi\<close> for a 64-bit \<open>int\<close>: an optional sign, then one or more decimal
  digits, and a value that fits; \<open>None\<close> is the error return.\<close>

definition Atoi :: "string \<Rightarrow> int option" where
  "Atoi s =
     (let (neg, ds) =
        (case s of
           [] \<Rightarrow> (False, [])
         | c # r \<Rightarrow>
             if c = CHR ''-'' then (True, r)
             else if c = CHR ''+'' then (False, r)
             else (False, s))
      in if ds = [] then None
         else (case digits_value 0 ds of
                 None \<Rightarrow> None
               | Some n \<Rightarrow>
                   (let v = (if neg then - int n else int n)
                    in if - (2 ^ 63) \<le> v \<and> v < 2 ^ 63 then Some v else None)))"

fun digits :: "nat \<Rightarrow> string" where
  "digits n =
     (if n < 10 then [char_of (48 + n)] else digits (n div 10) @ [char_of (48 + n mod 10)])"

text \<open>The verb \<open>%d\<close>.\<close>

definition itoa :: "int \<Rightarrow> string" where
  "itoa i = (if i < 0 then CHR ''-'' # digits (nat (- i)) else digits (nat i))"

section \<open>Errors\<close>

text \<open>
  A Go \<open>error\<close> is one of: a value of \<open>fmt.Errorf\<close> (the program's formats have no
  \<open>%w\<close>, so it wraps nothing), a value of the program's own type \<open>cgErr\<close>, or an error
  made by a library (the market-data client, \<open>encoding/json\<close>, \<open>time\<close>,
  \<open>text/template\<close>), of which the program reads the text and whether
  \<open>errors.Is(err, context.DeadlineExceeded)\<close> holds.
\<close>

datatype cgErr = CgErr (Value: string)

datatype error =
    Errorf string
  | OfCgErr cgErr
  | Foreign string bool

fun Error :: "error \<Rightarrow> string" where
  "Error (Errorf s) = s"
| "Error (OfCgErr cg) = Value cg"
| "Error (Foreign s d) = s"

fun is_DeadlineExceeded :: "error \<Rightarrow> bool" where
  "is_DeadlineExceeded (Errorf s) = False"
| "is_DeadlineExceeded (OfCgErr cg) = False"
| "is_DeadlineExceeded (Foreign s d) = d"

definition errInvalidCurrency :: cgErr where
  "errInvalidCurrency = CgErr ''invalid vs_currency''"

definition defaultCurrency :: string where
  "defaultCurrency = ''USD''"

section \<open>The sticker trigger\<close>

text \<open>\<open>doIt\<close> reads eight bytes of \<open>crypto/rand\<close> as a big-endian \<open>uint64\<close>; the
  argument is what \<open>binary.Read\<close> gives: an error, or the value read.\<close>

definition doIt :: "error + 64 word \<Rightarrow> bool" where
  "doIt r =
     (case r of
        Inl err \<Rightarrow> False
      | Inr v \<Rightarrow> if v mod 5 = 0 \<and> v mod 3 = 0 then True else False)"

section \<open>Data of the market-data client\<close>

text \<open>
  The types of the client library (\<open>go-gecko\<close>), with the fields the program reads.
  A \<open>float64\<close> is a value of the type \<open>'f\<close>, of which only division and
  multiplication are used and nothing is assumed: what is proved below holds for the
  IEEE 754 operations as it does for the real numbers.
\<close>

record coinBaseStruct =
  ID :: string
  Symbol :: string
  Name :: string

record 'f CoinsMarketItem = coinBaseStruct +
  CurrentPrice :: 'f
  MarketCap :: 'f
  High24 :: 'f
  Low24 :: 'f
  PriceChange24h :: 'f
  PriceChangePercentage24h :: 'f
  MarketCapChangePercentage24h :: 'f
  ATH :: 'f
  ATHDate :: string

text \<open>The market-data section of a historical record: \<open>CurrentPrice\<close>, a map from
  currency code to price.\<close>

record 'f MarketDataItem =
  HistoryCurrentPrice :: "string \<rightharpoonup> 'f"

text \<open>A historical record; \<open>MarketData\<close> is a pointer, \<open>None\<close> when nil.\<close>

record 'f CoinsIDHistoryData =
  MarketData :: "'f MarketDataItem option"

text \<open>The client \<open>gc\<close>: what each of its calls answers, with the arguments the program
  passes.\<close>

record 'f gecko =
  CoinsList :: "error + coinBaseStruct list"
  CoinsMarket ::
    "string \<Rightarrow> string list \<Rightarrow> string \<Rightarrow> int \<Rightarrow> int \<Rightarrow> bool \<Rightarrow> string list
      \<Rightarrow> error + 'f CoinsMarketItem list"
  CoinsIDHistory :: "string \<Rightarrow> string \<Rightarrow> bool \<Rightarrow> error + 'f CoinsIDHistoryData"

section \<open>The program's data\<close>

text \<open>\<open>templateData\<close> embeds a \<open>CoinsMarketItem\<close> and adds the formatted strings; its
  own \<open>MarketCap\<close>, \<open>High24\<close>, \<open>Low24\<close>, \<open>ATH\<close> and \<open>ATHDate\<close> hide the embedded
  fields of the same names, which are written \<open>CoinsMarketItem.ATH\<close> and so on.\<close>

record 'f templateData =
  CoinsMarketItem :: "'f CoinsMarketItem"
  Price :: string
  PriceChangePercent :: string
  MarketCap :: string
  MarketCapPercent :: string
  High24 :: string
  Low24 :: string
  ATH :: string
  ATHDate :: string

text \<open>
  The other libraries the program calls, by what they answer:
  \<^item> \<open>json_Unmarshal s\<close>: \<open>json.Unmarshal([]byte(s), &v)\<close> for a zero \<open>v\<close> of type
    \<open>cgErr\<close>: the error, or \<open>v\<close> as decoded;
  \<^item> \<open>now_Month\<close>: \<open>int(time.Now().Month())\<close>;
  \<^item> \<open>ParseFloat s\<close>: \<open>strconv.ParseFloat(s, 64)\<close>;
  \<^item> \<open>FormatMoneyInt c n\<close> and \<open>FormatMoneyFloat64 c x\<close>: the methods of the
    \<open>accounting.Accounting\<close> value built from \<open>accounting.LocaleInfo[c]\<close> with
    precision 2;
  \<^item> \<open>Sprintf_percent x\<close>: \<open>fmt.Sprintf("%.2f%%", x)\<close>;
  \<^item> \<open>time_Parse layout s\<close>: \<open>time.Parse\<close>, a time being its Unix seconds;
    \<open>goment_New\<close> and \<open>goment_Format\<close>: \<open>goment.New\<close> and \<open>Format\<close>;
  \<^item> \<open>template_Parse src\<close>: the error of \<open>template.New("t").Parse(src)\<close>, if any;
    \<open>template_Execute src t\<close>: the error of executing that template on \<open>t\<close>, or the
    text written.
\<close>

record 'f lib =
  json_Unmarshal :: "string \<Rightarrow> error + cgErr"
  now_Month :: int
  ParseFloat :: "string \<Rightarrow> error + 'f"
  FormatMoneyInt :: "string \<Rightarrow> int \<Rightarrow> string"
  FormatMoneyFloat64 :: "string \<Rightarrow> 'f \<Rightarrow> string"
  Sprintf_percent :: "'f \<Rightarrow> string"
  time_Parse :: "string \<Rightarrow> string \<Rightarrow> error + int"
  goment_New :: "int \<Rightarrow> error + int"
  goment_Format :: "int \<Rightarrow> string \<Rightarrow> string"
  template_Parse :: "string \<Rightarrow> error option"
  template_Execute :: "string \<Rightarrow> 'f templateData \<Rightarrow> error + string"

text \<open>\<open>coinQuerier\<close>; the mutex \<open>idMapUpdating\<close> is not modelled: calls are taken one
  at a time. A nil \<open>idMap\<close> reads as the empty map.\<close>

record 'f coinQuerier =
  gc :: "'f gecko"
  idMap :: "string \<rightharpoonup> string"

section \<open>The identifier cache\<close>

text \<open>\<open>loadCoinIDs\<close> returns its error (\<open>None\<close> for nil) and the querier after the
  call.\<close>

definition loadCoinIDs :: "'f coinQuerier \<Rightarrow> error option \<times> 'f coinQuerier" where
  "loadCoinIDs cq =
     (case CoinsList (gc cq) of
        Inl err \<Rightarrow> (Some err, cq)
      | Inr l \<Rightarrow>
          (let nim = fold (\<lambda>e nim. nim(Symbol e \<mapsto> ID e)) l Map.empty
           in (None, cq\<lparr>idMap := nim\<rparr>)))"

section \<open>Price queries\<close>

definition lookupPrice ::
  "'f lib \<Rightarrow> 'f coinQuerier \<Rightarrow> string \<Rightarrow> string \<Rightarrow> error + 'f CoinsMarketItem" where
  "lookupPrice L cq token currency =
     (case idMap cq (ToLower token) of
        None \<Rightarrow> Inl (Errorf (token @ '' not supported''))
      | Some cid \<Rightarrow>
          (case CoinsMarket (gc cq) currency [cid] ''market_cap_desc'' 250 1 False [''24h''] of
             Inl err \<Rightarrow>
               (case json_Unmarshal L (Error err) of
                  Inl err' \<Rightarrow> Inl err'
                | Inr v \<Rightarrow>
                    if v = errInvalidCurrency
                    then Inl (Errorf (ToUpper currency @ '' not supported''))
                    else Inl (OfCgErr v))
           | Inr r \<Rightarrow>
               (case r of
                  [] \<Rightarrow> Inl (Errorf ''no results found'')
                | x # _ \<Rightarrow> Inr x)))"

text \<open>The spec's \<open>lookup(symbol)\<close>: the expression \<open>cq.idMap[strings.ToLower(token)]\<close>
  with which \<open>lookupPrice\<close>, \<open>coinInfo\<close> and \<open>ifIBought\<close> resolve a token; \<open>None\<close> is
  "not found".\<close>

definition lookup :: "'f coinQuerier \<Rightarrow> string \<Rightarrow> string option" where
  "lookup cq token = idMap cq (ToLower token)"

section \<open>What-if queries\<close>

text \<open>The text \<open>"CoinGecko API connection failed "\<close> followed by the emoji U+1F915
  (four bytes in UTF-8), which \<open>ifIBought\<close> gives on a deadline.\<close>

definition api_unavailable :: string where
  "api_unavailable =
     ''CoinGecko API connection failed '' @ [CHR 0xF0, CHR 0x9F, CHR 0xA4, CHR 0x95]"

text \<open>\<open>ifIBought\<close> returns the error, or \<open>(oldAmount, newValue, oldPrice)\<close>. Its two
  log lines are not modelled.\<close>

definition ifIBought ::
  "('f::{inverse,times}) lib \<Rightarrow> 'f coinQuerier \<Rightarrow> string \<Rightarrow> string \<Rightarrow> int \<Rightarrow> int \<Rightarrow> 'f
    \<Rightarrow> error + 'f \<times> 'f \<times> 'f" where
  "ifIBought L cq token currency0 year month0 amount =
     (let currency = ToLower currency0 in
      case idMap cq (ToLower token) of
        None \<Rightarrow> Inl (Errorf (token @ '' not supported''))
      | Some cid \<Rightarrow>
          (let month = (if month0 \<le> 0 \<or> month0 > 12 then now_Month L else month0);
               dateStr = ''15-'' @ itoa month @ ''-'' @ itoa year
           in case CoinsIDHistory (gc cq) cid dateStr False of
                Inl err \<Rightarrow>
                  Inl (if is_DeadlineExceeded err then Errorf api_unavailable
                       else Errorf (token @ '' not supported''))
              | Inr data \<Rightarrow>
                  (case MarketData data of
                     None \<Rightarrow> Inl (Errorf (''No data available for year '' @ itoa year))
                   | Some md \<Rightarrow>
                       (case HistoryCurrentPrice md currency of
                          None \<Rightarrow> Inl (Errorf (currency @ '' not supported''))
                        | Some oldPrice \<Rightarrow>
                            (case lookupPrice L cq token currency of
                               Inl err \<Rightarrow> Inl err
                             | Inr newData \<Rightarrow>
                                 (let oldAmount = amount / oldPrice;
                                      newValue = oldAmount * CurrentPrice newData
                                  in Inr (oldAmount, newValue, oldPrice)))))))"

section \<open>Composing the reply to a price query\<close>

definition coinInfoFmt :: string where
  "coinInfoFmt =
     ''{{.Name}} ({{.Symbol}})'' @ [CHR 0x0A, CHR 0x0A]
     @ ''Price: {{.Price}} ({{.PriceChangePercent}} {{.PriceEmoji}})'' @ [CHR 0x0A]
     @ ''Market cap: {{.MarketCap}}({{.MarketCapPercent}} {{.MarketCapEmoji}})'' @ [CHR 0x0A]
     @ ''ATH: {{.ATH}} ({{.ATHDate}}) '' @ [CHR 0xF0, CHR 0x9F, CHR 0x8C, CHR 0x9D, CHR 0x0A]
     @ ''Last 24H high: {{.High24}}'' @ [CHR 0x0A]
     @ ''Last 24H low: {{.Low24}}'' @ [CHR 0x0A]"

definition RFC3339 :: string where
  "RFC3339 = ''2006-01-02T15:04:05Z07:00''"

text \<open>\<open>format\<close> updates \<open>t\<close> in place and returns nothing; here it returns the updated
  \<open>t\<close>, or \<open>Inl err\<close> where the source runs \<open>panic(err)\<close>.\<close>

definition format :: "'f lib \<Rightarrow> string \<Rightarrow> 'f templateData \<Rightarrow> error + 'f templateData" where
  "format L currency t0 =
     (let lc = ToUpper currency;
          t = t0\<lparr>CoinsMarketItem :=
                 (CoinsMarketItem t0)\<lparr>Symbol := ''$'' @ ToUpper (Symbol (CoinsMarketItem t0))\<rparr>\<rparr>;
          t = t\<lparr>Price := FormatMoneyFloat64 L lc (CurrentPrice (CoinsMarketItem t))\<rparr>;
          t = t\<lparr>PriceChangePercent :=
                 Sprintf_percent L (PriceChangePercentage24h (CoinsMarketItem t))\<rparr>;
          t = t\<lparr>MarketCap := FormatMoneyFloat64 L lc (CoinsMarketItem.MarketCap (CoinsMarketItem t))\<rparr>;
          t = t\<lparr>MarketCapPercent :=
                 Sprintf_percent L (MarketCapChangePercentage24h (CoinsMarketItem t))\<rparr>;
          t = t\<lparr>High24 := FormatMoneyFloat64 L lc (CoinsMarketItem.High24 (CoinsMarketItem t))\<rparr>;
          t = t\<lparr>Low24 := FormatMoneyFloat64 L lc (CoinsMarketItem.Low24 (CoinsMarketItem t))\<rparr>;
          t = t\<lparr>ATH := FormatMoneyFloat64 L lc (CoinsMarketItem.ATH (CoinsMarketItem t))\<rparr>
      in case time_Parse L RFC3339 (CoinsMarketItem.ATHDate (CoinsMarketItem t)) of
           Inl err \<Rightarrow> Inl err
         | Inr pt \<Rightarrow>
             (case goment_New L pt of
                Inl err \<Rightarrow> Inl err
              | Inr tt \<Rightarrow> Inr (t\<lparr>ATHDate := goment_Format L tt ''D MMMM YYYY''\<rparr>)))"

text \<open>\<open>queryMessage\<close>: \<open>Inl err\<close> when the call panics with \<open>err\<close>; otherwise the lines
  it logs (without the logger's time stamp) and the string it returns.\<close>

definition queryMessage ::
  "'f lib \<Rightarrow> 'f coinQuerier \<Rightarrow> string \<Rightarrow> string \<Rightarrow> error + string list \<times> string" where
  "queryMessage L cq ticker fiatCurrency =
     (case lookupPrice L cq ticker fiatCurrency of
        Inl err \<Rightarrow> Inr ([], Error err)
      | Inr p \<Rightarrow>
          (let t = \<lparr>CoinsMarketItem = p, Price = [], PriceChangePercent = [], MarketCap = [],
                    MarketCapPercent = [], High24 = [], Low24 = [], ATH = [], ATHDate = []\<rparr>
           in case format L fiatCurrency t of
                Inl err \<Rightarrow> Inl err
              | Inr t \<Rightarrow>
                  (case template_Parse L coinInfoFmt of
                     Some err \<Rightarrow>
                       Inr ([''cannot generate message template: '' @ Error err],
                            ''Cannot query CoinGecko API'')
                   | None \<Rightarrow>
                       (case template_Execute L coinInfoFmt t of
                          Inl err \<Rightarrow>
                            Inr ([''cannot execute message template: '' @ Error err],
                                 ''Cannot query CoinGecko API'')
                        | Inr out \<Rightarrow> Inr ([], out)))))"

section \<open>The /whatif command\<close>

text \<open>\<open>fmt.Sprintf(ifIHadFmt, a, b, c, d, e)\<close>.\<close>

definition ifIHadFmt :: "string \<Rightarrow> string \<Rightarrow> int \<Rightarrow> string \<Rightarrow> string \<Rightarrow> string" where
  "ifIHadFmt a b c d e =
     a @ '' worth of '' @ b @ '' in '' @ itoa c @ '' (priced at '' @ d
     @ '') are now worth '' @ e @ '' '' @ [CHR 0xF0, CHR 0x9F, CHR 0x98, CHR 0xB1]"

text \<open>The month of the handler (\<open>var month int\<close> and the \<open>if len(f) == 4\<close> after it), for
  the arguments \<open>f\<close>: the messages it sends and the value of \<open>month\<close> after it. A failed
  \<open>Atoi\<close> returns 0.\<close>

definition whatif_month :: "string list \<Rightarrow> string list \<times> int" where
  "whatif_month f =
     (if length f = 4
      then (case Atoi (f ! 2) of
              None \<Rightarrow> ([''Malformed month''], 0)
            | Some mm \<Rightarrow> ([], mm))
      else ([], 0))"

text \<open>The handler of \<open>/whatif\<close> on a message of text \<open>text\<close>: the messages it sends to the
  chat, in order, or \<open>Inl\<close> when it panics (\<open>f[1:]\<close> of an empty \<open>f\<close>).\<close>

definition whatif_handler ::
  "('f::{inverse,times}) lib \<Rightarrow> 'f coinQuerier \<Rightarrow> string \<Rightarrow> error + string list" where
  "whatif_handler L cq text =
     (case Fields text of
        [] \<Rightarrow> Inl (Foreign ''runtime error: slice bounds out of range [1:0]'' False)
      | _ # f \<Rightarrow>
          if length f < 3 then Inr [''Syntax: /whatif amount token year [month number]'']
          else
            (case ParseFloat L (f ! 0) of
               Inl err \<Rightarrow> Inr [''Malformed amount'']
             | Inr amount \<Rightarrow>
                 (let token = f ! 1 in
                  case Atoi (f ! 2) of
                    None \<Rightarrow> Inr [''Malformed year'']
                  | Some year \<Rightarrow>
                      (let (sent, month) = whatif_month f in
                       case ifIBought L cq token defaultCurrency year month amount of
                         Inl err \<Rightarrow> Inr (sent @ [Error err])
                       | Inr (old, new, oldPrice) \<Rightarrow>
                           (let lc = ToUpper defaultCurrency;
                                ss = ifIHadFmt (FormatMoneyInt L lc 500) (ToUpper token) year
                                       (FormatMoneyFloat64 L lc oldPrice)
                                       (FormatMoneyFloat64 L lc new)
                            in Inr (sent @ [ss]))))))"

section \<open>Sample collaborators\<close>

text \<open>
  Concrete answers of the libraries and of the market-data service, for evaluating the
  program on concrete inputs. \<open>float64\<close> is \<open>real\<close> here; the sample values and the
  results computed from them are exact in binary64 too.
\<close>

definition invalid_currency_payload :: string where
  "invalid_currency_payload =
     ''{'' @ [CHR 0x22] @ ''error'' @ [CHR 0x22] @ '':'' @ [CHR 0x22]
     @ ''invalid vs_currency'' @ [CHR 0x22] @ ''}''"

definition json_syntax_error :: error where
  "json_syntax_error =
     Foreign (''invalid character '' @ [CHR 0x27] @ ''c'' @ [CHR 0x27]
              @ '' looking for beginning of value'') False"

definition sample_lib :: "real lib" where
  "sample_lib =
     \<lparr>json_Unmarshal =
        (\<lambda>s. if s = invalid_currency_payload then Inr (CgErr ''invalid vs_currency'')
             else Inl json_syntax_error),
      now_Month = 10,
      ParseFloat =
        (\<lambda>s. if s = ''100'' then Inr 100
             else Inl (Foreign ''strconv.ParseFloat: invalid syntax'' False)),
      FormatMoneyInt = (\<lambda>c n. ''$'' @ itoa n @ ''.00''),
      FormatMoneyFloat64 =
        (\<lambda>c x. if x = 200 then ''$200.00''
               else if x = 1000 then ''$1,000.00''
               else if x = 2000 then ''$2,000.00''
               else ''$0.00''),
      Sprintf_percent = (\<lambda>x. ''0.00%''),
      time_Parse =
        (\<lambda>layout s. if s = ''2021-11-10T14:24:11Z'' then Inr 1636554251
                  else Inl (Foreign ''parsing time: cannot parse'' False)),
      goment_New = (\<lambda>t. Inr t),
      goment_Format = (\<lambda>t layout. ''10 November 2021''),
      template_Parse = (\<lambda>src. None),
      template_Execute =
        (\<lambda>src t. Inr (Name (CoinsMarketItem t) @ '' ('' @ Symbol (CoinsMarketItem t) @ '')''))\<rparr>"

definition eth_item :: "string \<Rightarrow> real CoinsMarketItem" where
  "eth_item date =
     \<lparr>ID = ''ethereum'', Symbol = ''eth'', Name = ''Ethereum'', CurrentPrice = 2000,
      CoinsMarketItem.MarketCap = 0, CoinsMarketItem.High24 = 2000,
      CoinsMarketItem.Low24 = 2000, PriceChange24h = 0, PriceChangePercentage24h = 0,
      MarketCapChangePercentage24h = 0, CoinsMarketItem.ATH = 2000,
      CoinsMarketItem.ATHDate = date\<rparr>"

definition listed :: "coinBaseStruct list" where
  "listed =
     [\<lparr>ID = ''ethereum'', Symbol = ''eth'', Name = ''Ethereum''\<rparr>,
      \<lparr>ID = ''ethereum-wormhole'', Symbol = ''eth'', Name = ''Ethereum (Wormhole)''\<rparr>,
      \<lparr>ID = ''bitcoin'', Symbol = ''BTC'', Name = ''Bitcoin''\<rparr>]"

text \<open>A service that answers \<open>list\<close> to the asset-list call and knows one asset, symbol
  \<open>eth\<close>, priced at 200 in \<open>usd\<close> on every past day and at 2000 now, with the
  all-time-high date \<open>date\<close>; it rejects the currency \<open>xyz\<close>, and answers \<open>market\<close> to
  the market call instead when that is an error.\<close>

definition sample_gc ::
  "error + coinBaseStruct list \<Rightarrow> string \<Rightarrow> error option \<Rightarrow> real gecko" where
  "sample_gc list date market =
     \<lparr>CoinsList = list,
      CoinsMarket =
        (\<lambda>currency ids order per_page page sparkline change.
           case market of
             Some err \<Rightarrow> Inl err
           | None \<Rightarrow>
               if ToLower currency = ''xyz'' then Inl (Foreign invalid_currency_payload False)
               else Inr [eth_item date]),
      CoinsIDHistory =
        (\<lambda>cid date localization.
           Inr \<lparr>MarketData = Some \<lparr>HistoryCurrentPrice = [''usd'' \<mapsto> 200]\<rparr>\<rparr>)\<rparr>"

text \<open>A querier on that service whose cache holds \<open>eth\<close>.\<close>

definition sample_cq ::
  "error + coinBaseStruct list \<Rightarrow> string \<Rightarrow> error option \<Rightarrow> real coinQuerier" where
  "sample_cq list date market =
     \<lparr>gc = sample_gc list date market, idMap = [''eth'' \<mapsto> ''ethereum'']\<rparr>"


section \<open>Evaluation of the string functions on the sample inputs\<close>

lemma ToLower_ex:
  "ToLower ''ETH'' = ''eth''" "ToLower ''USD'' = ''usd''" "ToLower ''usd'' = ''usd''"
  "ToLower ''BTC'' = ''btc''" "ToLower ''btc'' = ''btc''" "ToLower ''eth'' = ''eth''"
  "ToLower ''DOGE'' = ''doge''" "ToLower ''XYZ'' = ''xyz''" "ToLower ''xyz'' = ''xyz''"
  by code_simp+

lemma ToUpper_ex:
  "ToUpper ''ETH'' = ''ETH''" "ToUpper ''USD'' = ''USD''" "ToUpper ''xyz'' = ''XYZ''"
  "ToUpper ''XYZ'' = ''XYZ''" "ToUpper ''eth'' = ''ETH''" "ToUpper ''usd'' = ''USD''"
  by code_simp+

lemma itoa_ex:
  "itoa 10 = ''10''" "itoa 2018 = ''2018''" "itoa 500 = ''500''" "itoa 3 = ''3''"
  by code_simp+

lemma Atoi_ex:
  "Atoi ''2018'' = Some 2018" "Atoi ''3'' = Some 3" "Atoi ''abc'' = None"
  by code_simp+

lemma Fields_ex:
  "Fields ''/whatif 100 ETH 2018'' = [''/whatif'', ''100'', ''ETH'', ''2018'']"
  "Fields ''/whatif 100 ETH 2018 3'' = [''/whatif'', ''100'', ''ETH'', ''2018'', ''3'']"
  "Fields ''/whatif 100 ETH 2018 abc'' = [''/whatif'', ''100'', ''ETH'', ''2018'', ''abc'']"
  by code_simp+

section \<open>The sticker trigger\<close>

lemma word_mod_zero_iff:
  "(v :: 64 word) mod numeral k = 0 \<longleftrightarrow> unat v mod unat (numeral k :: 64 word) = 0"
  by (simp only: unat_mod_distrib [symmetric] unat_eq_0)

lemma doIt_iff_dvd: "doIt (Inr v) \<longleftrightarrow> 15 dvd unat v"
proof -
  have a: "v mod 5 = 0 \<longleftrightarrow> 5 dvd unat v"
    using word_mod_zero_iff [of v "num.Bit1 (num.Bit0 num.One)"] by (simp add: dvd_eq_mod_eq_0)
  have b: "v mod 3 = 0 \<longleftrightarrow> 3 dvd unat v"
    using word_mod_zero_iff [of v "num.Bit1 num.One"] by (simp add: dvd_eq_mod_eq_0)
  have c: "5 dvd n \<and> 3 dvd n \<longleftrightarrow> 15 dvd n" for n :: nat
    by presburger
  show ?thesis
    by (simp add: doIt_def a b c)
qed

text \<open>The multiples of 15 below \<open>2 ^ 64\<close> are \<open>15 * k\<close> for \<open>k\<close> below
  \<open>(2 ^ 64 + 14) div 15\<close>.\<close>

lemma multiples_below:
  "{n::nat. n < 2 ^ 64 \<and> 15 dvd n} = (\<lambda>k. 15 * k) ` {..<1229782938247303442}"
proof (rule set_eqI, rule iffI)
  fix n :: nat
  assume "n \<in> {n. n < 2 ^ 64 \<and> 15 dvd n}"
  then obtain k where k: "n = 15 * k" and lt: "n < 2 ^ 64" by (auto elim: dvdE)
  from k lt have "k < 1229782938247303442" by simp
  with k show "n \<in> (\<lambda>k. 15 * k) ` {..<1229782938247303442}" by blast
next
  fix n :: nat
  assume "n \<in> (\<lambda>k. 15 * k) ` {..<1229782938247303442}"
  then obtain k where k: "n = 15 * k" and lt: "k < 1229782938247303442" by auto
  from k lt have "n < 2 ^ 64" by simp
  with k show "n \<in> {n. n < 2 ^ 64 \<and> 15 dvd n}" by simp
qed

lemma card_multiples_below: "card {n::nat. n < 2 ^ 64 \<and> 15 dvd n} = 1229782938247303442"
proof -
  have "card ((\<lambda>k::nat. 15 * k) ` {..<1229782938247303442})
          = card {..<1229782938247303442::nat}"
    by (rule card_image) (simp add: inj_on_def)
  then show ?thesis unfolding multiples_below by simp
qed

lemma unat_image_multiples:
  "unat ` {v :: 64 word. 15 dvd unat v} = {n::nat. n < 2 ^ 64 \<and> 15 dvd n}"
proof (rule set_eqI, rule iffI)
  fix n :: nat
  assume "n \<in> unat ` {v :: 64 word. 15 dvd unat v}"
  then obtain v :: "64 word" where "n = unat v" "15 dvd unat v" by auto
  moreover have "unat v < 2 ^ 64" using unsigned_less [of v, where 'a = nat] by simp
  ultimately show "n \<in> {n. n < 2 ^ 64 \<and> 15 dvd n}" by simp
next
  fix n :: nat
  assume "n \<in> {n. n < 2 ^ 64 \<and> 15 dvd n}"
  then have lt: "n < 2 ^ 64" and d: "15 dvd n" by auto
  have "unat (of_nat n :: 64 word) = n" using lt by (simp add: unat_of_nat)
  with d show "n \<in> unat ` {v :: 64 word. 15 dvd unat v}"
    by (metis (mono_tags, lifting) image_eqI mem_Collect_eq)
qed

lemma card_doIt: "card {v :: 64 word. doIt (Inr v)} = 1229782938247303442"
proof -
  have "card (unat ` {v :: 64 word. 15 dvd unat v}) = card {v :: 64 word. 15 dvd unat v}"
    by (rule card_image) (auto simp: inj_on_def intro: unsigned_word_eqI)
  then show ?thesis
    unfolding unat_image_multiples card_multiples_below by (simp add: doIt_iff_dvd)
qed

text \<open>
  C9, as the claim states it, fails in its second part: of the \<open>2 ^ 64\<close> values,
  1229782938247303442 are multiples of 15, and fifteen times that number is
  \<open>2 ^ 64 + 14\<close>, so the probability of a sticker is not \<open>1 / 15\<close>.
\<close>

theorem doIt_probability_counterexample:
  "real (card {v :: 64 word. doIt (Inr v)}) / 2 ^ 64 \<noteq> 1 / 15"
  by (simp add: card_doIt)

text \<open>
  C9 (amended): \<open>doIt\<close> returns true exactly when the value read is divisible by 5 and
  by 3, that is by 15; it does so for 1229782938247303442 of the \<open>2 ^ 64\<close> values, so for
  a value drawn uniformly its probability is \<open>1 / 15 + 14 / (15 * 2 ^ 64)\<close>, within
  \<open>2 ^ (- 64)\<close> of \<open>1 / 15\<close>; and when the read fails it returns false.
\<close>

theorem doIt_trigger:
  "(doIt (Inr v) \<longleftrightarrow> 5 dvd unat v \<and> 3 dvd unat v)
   \<and> (doIt (Inr v) \<longleftrightarrow> 15 dvd unat v)
   \<and> card {w :: 64 word. doIt (Inr w)} = 1229782938247303442
   \<and> real (card {w :: 64 word. doIt (Inr w)}) / 2 ^ 64 = 1 / 15 + 14 / (15 * 2 ^ 64)
   \<and> \<bar>real (card {w :: 64 word. doIt (Inr w)}) / 2 ^ 64 - 1 / 15\<bar> < 1 / 2 ^ 64
   \<and> doIt (Inl err) = False"
proof -
  have c: "5 dvd n \<and> 3 dvd n \<longleftrightarrow> 15 dvd n" for n :: nat
    by presburger
  have a: "doIt (Inr v) \<longleftrightarrow> 5 dvd unat v \<and> 3 dvd unat v"
    by (simp only: doIt_iff_dvd c)
  have e: "doIt (Inl err) = False"
    by (simp add: doIt_def)
  have p: "real (card {w :: 64 word. doIt (Inr w)}) / 2 ^ 64 = 1 / 15 + 14 / (15 * 2 ^ 64)"
    by (simp add: card_doIt)
  have q: "\<bar>real (card {w :: 64 word. doIt (Inr w)}) / 2 ^ 64 - 1 / 15\<bar> < 1 / 2 ^ 64"
    by (simp add: card_doIt)
  from a doIt_iff_dvd [of v] card_doIt p q e show ?thesis
    by (intro conjI)
qed

section \<open>The identifier cache\<close>

lemma fold_upd_map_of:
  "fold (\<lambda>e nim. nim(Symbol e \<mapsto> ID e)) l m
     = m ++ map_of (rev (map (\<lambda>e. (Symbol e, ID e)) l))"
  by (induction l arbitrary: m) (simp_all add: map_add_upd_left)

lemma loadCoinIDs_ok:
  "CoinsList (gc cq) = Inr l \<Longrightarrow>
    loadCoinIDs cq = (None, cq\<lparr>idMap := map_of (rev (map (\<lambda>e. (Symbol e, ID e)) l))\<rparr>)"
  by (simp add: loadCoinIDs_def fold_upd_map_of)

lemma map_of_rev_last:
  assumes "i < length l" and "\<forall>j. i < j \<and> j < length l \<longrightarrow> Symbol (l ! j) \<noteq> Symbol (l ! i)"
  shows "map_of (rev (map (\<lambda>e. (Symbol e, ID e)) l)) (Symbol (l ! i)) = Some (ID (l ! i))"
  using assms
proof (induction l arbitrary: i rule: rev_induct)
  case Nil
  then show ?case by simp
next
  case (snoc x xs)
  show ?case
  proof (cases "i = length xs")
    case True
    then show ?thesis by simp
  next
    case False
    with snoc.prems have i: "i < length xs" by simp
    have ne: "Symbol x \<noteq> Symbol (xs ! i)"
      using snoc.prems(2) [rule_format, of "length xs"] i by (simp add: nth_append)
    have "\<forall>j. i < j \<and> j < length xs \<longrightarrow> Symbol (xs ! j) \<noteq> Symbol (xs ! i)"
    proof (intro allI impI)
      fix j assume j: "i < j \<and> j < length xs"
      then show "Symbol (xs ! j) \<noteq> Symbol (xs ! i)"
        using snoc.prems(2) [rule_format, of j] i by (simp add: nth_append)
    qed
    from snoc.IH [OF i this] ne i show ?thesis by (simp add: nth_append)
  qed
qed

lemma map_of_rev_absent:
  "s \<notin> Symbol ` set l \<Longrightarrow> map_of (rev (map (\<lambda>e. (Symbol e, ID e)) l)) s = None"
  by (simp add: map_of_eq_None_iff image_image)

text \<open>
  C4: when the asset-list call fails, \<open>loadCoinIDs\<close> returns that error and leaves the
  querier, and so its map, as it was; whatever the service answers afterwards (\<open>g\<close>),
  \<open>lookup\<close>, \<open>lookupPrice\<close> and \<open>ifIBought\<close> give on the querier after the call what
  they give on the querier before it.
\<close>

theorem loadCoinIDs_fetch_failure:
  assumes "CoinsList (gc cq) = Inl err"
  shows "loadCoinIDs cq = (Some err, cq)
    \<and> idMap (snd (loadCoinIDs cq)) = idMap cq
    \<and> lookup ((snd (loadCoinIDs cq))\<lparr>gc := g\<rparr>) token = lookup (cq\<lparr>gc := g\<rparr>) token
    \<and> lookupPrice L ((snd (loadCoinIDs cq))\<lparr>gc := g\<rparr>) token currency
        = lookupPrice L (cq\<lparr>gc := g\<rparr>) token currency
    \<and> ifIBought L' ((snd (loadCoinIDs cq))\<lparr>gc := g\<rparr>) token currency year month amount
        = ifIBought L' (cq\<lparr>gc := g\<rparr>) token currency year month amount"
  using assms by (simp add: loadCoinIDs_def)

theorem loadCoinIDs_fetch_failure_witness:
  "CoinsList (gc (sample_cq (Inl (Foreign ''timeout'' True)) [] None)) = Inl (Foreign ''timeout'' True)
   \<and> loadCoinIDs (sample_cq (Inl (Foreign ''timeout'' True)) [] None)
       = (Some (Foreign ''timeout'' True), sample_cq (Inl (Foreign ''timeout'' True)) [] None)
   \<and> lookup (snd (loadCoinIDs (sample_cq (Inl (Foreign ''timeout'' True)) [] None))) ''ETH'' = Some ''ethereum''"
proof -
  let ?cq = "sample_cq (Inl (Foreign ''timeout'' True)) [] None"
  have h: "CoinsList (gc ?cq) = Inl (Foreign ''timeout'' True)"
    by (simp add: sample_cq_def sample_gc_def)
  have l: "lookup ?cq ''ETH'' = Some ''ethereum''"
    by (simp add: lookup_def sample_cq_def ToLower_ex)
  from loadCoinIDs_fetch_failure [OF h, of "gc ?cq" "''ETH''"] h l show ?thesis
    by simp
qed

lemma lookupPrice_not_found:
  "idMap cq (ToLower t) = None \<Longrightarrow>
     lookupPrice L cq t currency = Inl (Errorf (t @ '' not supported''))"
  by (simp add: lookupPrice_def)

text \<open>
  C5, as the claim states it, fails: the map is keyed by the symbols as the service
  lists them, and \<open>lookup\<close> lower-cases its argument. After a refresh with a list
  holding the symbol \<open>BTC\<close>, that symbol is in the map and \<open>lookup\<close> of its lower-case
  form finds nothing.
\<close>

theorem lookup_uppercase_symbol_counterexample:
  "CoinsList (gc (sample_cq (Inr listed) [] None)) = Inr listed
   \<and> idMap (snd (loadCoinIDs (sample_cq (Inr listed) [] None))) ''BTC'' = Some ''bitcoin''
   \<and> lookup (snd (loadCoinIDs (sample_cq (Inr listed) [] None))) (ToLower ''BTC'') = None
   \<and> lookupPrice sample_lib (snd (loadCoinIDs (sample_cq (Inr listed) [] None))) (ToLower ''BTC'') ''usd''
       = Inl (Errorf ''btc not supported'')"
  by (simp add: loadCoinIDs_def lookup_def lookupPrice_def sample_cq_def sample_gc_def listed_def ToLower_ex)

text \<open>
  C5 (amended): after a successful refresh with the list \<open>l\<close>, the map holds for each
  symbol of \<open>l\<close> the ID of its last occurrence and nothing for any other string; for a
  symbol \<open>s\<close> of the map that is in lower case (\<open>ToLower s = s\<close>), \<open>lookup\<close> of
  \<open>ToLower s\<close> is the mapped identifier; and for a token whose lower-case form is not in
  the map, \<open>lookup\<close> finds nothing and \<open>lookupPrice\<close> fails with "not supported".
\<close>

theorem loadCoinIDs_success_lookup:
  assumes "CoinsList (gc cq) = Inr l"
  shows "fst (loadCoinIDs cq) = None
    \<and> (\<forall>i. i < length l \<and> (\<forall>j. i < j \<and> j < length l \<longrightarrow> Symbol (l ! j) \<noteq> Symbol (l ! i))
           \<longrightarrow> idMap (snd (loadCoinIDs cq)) (Symbol (l ! i)) = Some (ID (l ! i)))
    \<and> (\<forall>s. s \<notin> Symbol ` set l \<longrightarrow> idMap (snd (loadCoinIDs cq)) s = None)
    \<and> (\<forall>s cid. idMap (snd (loadCoinIDs cq)) s = Some cid \<and> ToLower s = s
           \<longrightarrow> lookup (snd (loadCoinIDs cq)) (ToLower s) = Some cid)
    \<and> (\<forall>t. idMap (snd (loadCoinIDs cq)) (ToLower t) = None
           \<longrightarrow> lookup (snd (loadCoinIDs cq)) t = None
             \<and> lookupPrice L (snd (loadCoinIDs cq)) t currency
                 = Inl (Errorf (t @ '' not supported'')))"
proof -
  let ?m = "map_of (rev (map (\<lambda>e. (Symbol e, ID e)) l))"
  have eq: "loadCoinIDs cq = (None, cq\<lparr>idMap := ?m\<rparr>)"
    using assms by (rule loadCoinIDs_ok)
  have a: "fst (loadCoinIDs cq) = None" by (simp add: eq)
  have b: "\<forall>i. i < length l \<and> (\<forall>j. i < j \<and> j < length l \<longrightarrow> Symbol (l ! j) \<noteq> Symbol (l ! i))
           \<longrightarrow> idMap (snd (loadCoinIDs cq)) (Symbol (l ! i)) = Some (ID (l ! i))"
    by (simp add: eq map_of_rev_last)
  have c: "\<forall>s. s \<notin> Symbol ` set l \<longrightarrow> idMap (snd (loadCoinIDs cq)) s = None"
    using map_of_rev_absent [of _ l] by (simp add: eq)
  have d: "\<forall>s cid. idMap (snd (loadCoinIDs cq)) s = Some cid \<and> ToLower s = s
           \<longrightarrow> lookup (snd (loadCoinIDs cq)) (ToLower s) = Some cid"
    by (simp add: lookup_def)
  have e: "\<forall>t. idMap (snd (loadCoinIDs cq)) (ToLower t) = None
           \<longrightarrow> lookup (snd (loadCoinIDs cq)) t = None
             \<and> lookupPrice L (snd (loadCoinIDs cq)) t currency
                 = Inl (Errorf (t @ '' not supported''))"
    by (simp add: lookup_def lookupPrice_not_found)
  from a b c d e show ?thesis by blast
qed

theorem loadCoinIDs_success_lookup_witness:
  "CoinsList (gc (sample_cq (Inr listed) [] None)) = Inr listed
   \<and> idMap (snd (loadCoinIDs (sample_cq (Inr listed) [] None))) ''eth'' = Some ''ethereum-wormhole''
   \<and> idMap (snd (loadCoinIDs (sample_cq (Inr listed) [] None))) ''doge'' = None
   \<and> lookup (snd (loadCoinIDs (sample_cq (Inr listed) [] None))) ''eth'' = Some ''ethereum-wormhole''
   \<and> lookupPrice sample_lib (snd (loadCoinIDs (sample_cq (Inr listed) [] None))) ''DOGE'' ''usd''
       = Inl (Errorf ''DOGE not supported'')"
proof -
  let ?cq = "sample_cq (Inr listed) [] None"
  let ?cq' = "snd (loadCoinIDs ?cq)"
  have h: "CoinsList (gc ?cq) = Inr listed"
    by (simp add: sample_cq_def sample_gc_def)
  note t = loadCoinIDs_success_lookup [OF h, of sample_lib "''usd''"]
  have last: "idMap ?cq' (Symbol (listed ! 1)) = Some (ID (listed ! 1))"
  proof -
    have "1 < length listed \<and> (\<forall>j. 1 < j \<and> j < length listed \<longrightarrow> Symbol (listed ! j) \<noteq> Symbol (listed ! 1))"
    proof (intro conjI allI impI)
      show "1 < length listed" by (simp add: listed_def)
    next
      fix j assume "1 < j \<and> j < length listed"
      then have "j = 2" by (simp add: listed_def)
      then show "Symbol (listed ! j) \<noteq> Symbol (listed ! 1)" by (simp add: listed_def)
    qed
    with t show ?thesis by blast
  qed
  then have eth: "idMap ?cq' ''eth'' = Some ''ethereum-wormhole''" by (simp add: listed_def)
  have "''doge'' \<notin> Symbol ` set listed" by (simp add: listed_def)
  with t have doge: "idMap ?cq' ''doge'' = None" by blast
  from t eth have "ToLower ''eth'' = ''eth'' \<longrightarrow> lookup ?cq' (ToLower ''eth'') = Some ''ethereum-wormhole''"
    by blast
  then have lk: "lookup ?cq' ''eth'' = Some ''ethereum-wormhole''" by (simp add: ToLower_ex)
  from doge have "idMap ?cq' (ToLower ''DOGE'') = None" by (simp add: ToLower_ex)
  with t have "lookupPrice sample_lib ?cq' ''DOGE'' ''usd'' = Inl (Errorf (''DOGE'' @ '' not supported''))"
    by blast
  with h eth doge lk show ?thesis by simp
qed

section \<open>Price queries\<close>

text \<open>
  C6, as the claim states it, fails in its second part, on an error of the market call
  whose text is not JSON (here a timeout, \<open>context deadline exceeded\<close>): \<open>lookupPrice\<close>
  returns the error of \<open>json.Unmarshal\<close>, not the error of the call. The inner
  \<open>err :=\<close> of the \<open>if\<close> hides the outer \<open>err\<close>.
\<close>

theorem lookupPrice_unparsable_error:
  "lookupPrice sample_lib
      (sample_cq (Inr listed) [] (Some (Foreign ''context deadline exceeded'' True)))
      ''ETH'' ''USD''
     = Inl json_syntax_error
   \<and> json_syntax_error \<noteq> Foreign ''context deadline exceeded'' True
   \<and> Error json_syntax_error \<noteq> ''context deadline exceeded''"
  by (simp add: lookupPrice_def sample_cq_def sample_gc_def sample_lib_def ToLower_ex
      json_syntax_error_def invalid_currency_payload_def)

text \<open>
  X1: for a token that resolves, \<open>lookupPrice\<close> fails with "<CURRENCY> not supported"
  (the currency in upper case) when the error text of the market call decodes to
  \<open>invalid vs_currency\<close>, with the decoded \<open>cgErr\<close> when it decodes to another value,
  and with "no results found" when the call answers an empty list; otherwise it returns
  the first item.
\<close>

theorem lookupPrice_failures:
  assumes "idMap cq (ToLower token) = Some cid"
  shows "(\<forall>err. CoinsMarket (gc cq) currency [cid] ''market_cap_desc'' 250 1 False [''24h''] = Inl err
            \<and> json_Unmarshal L (Error err) = Inr (CgErr ''invalid vs_currency'')
          \<longrightarrow> lookupPrice L cq token currency = Inl (Errorf (ToUpper currency @ '' not supported'')))
    \<and> (\<forall>err v. CoinsMarket (gc cq) currency [cid] ''market_cap_desc'' 250 1 False [''24h''] = Inl err
            \<and> json_Unmarshal L (Error err) = Inr v \<and> v \<noteq> CgErr ''invalid vs_currency''
          \<longrightarrow> lookupPrice L cq token currency = Inl (OfCgErr v))
    \<and> (CoinsMarket (gc cq) currency [cid] ''market_cap_desc'' 250 1 False [''24h''] = Inr []
          \<longrightarrow> lookupPrice L cq token currency = Inl (Errorf ''no results found''))
    \<and> (\<forall>x xs. CoinsMarket (gc cq) currency [cid] ''market_cap_desc'' 250 1 False [''24h''] = Inr (x # xs)
          \<longrightarrow> lookupPrice L cq token currency = Inr x)"
  using assms by (simp add: lookupPrice_def errInvalidCurrency_def)

theorem lookupPrice_failures_witness:
  "lookupPrice sample_lib (sample_cq (Inr listed) [] None) ''ETH'' ''XYZ''
     = Inl (Errorf ''XYZ not supported'')
   \<and> lookupPrice sample_lib
        ((sample_cq (Inr listed) [] None)
           \<lparr>gc := (sample_gc (Inr listed) [] None)\<lparr>CoinsMarket := (\<lambda>c ids ord n p s ch. Inr [])\<rparr>\<rparr>)
        ''ETH'' ''USD''
     = Inl (Errorf ''no results found'')
   \<and> lookupPrice sample_lib (sample_cq (Inr listed) [] None) ''ETH'' ''USD'' = Inr (eth_item [])"
proof -
  let ?cq = "sample_cq (Inr listed) [] None"
  let ?none = "?cq\<lparr>gc := (sample_gc (Inr listed) [] None)\<lparr>CoinsMarket := (\<lambda>c ids ord n p s ch. Inr [])\<rparr>\<rparr>"
  have h: "idMap ?cq (ToLower ''ETH'') = Some ''ethereum''"
    by (simp add: sample_cq_def ToLower_ex)
  have h0: "idMap ?none (ToLower ''ETH'') = Some ''ethereum''"
    by (simp add: sample_cq_def ToLower_ex)
  have a: "lookupPrice sample_lib ?cq ''ETH'' ''XYZ'' = Inl (Errorf ''XYZ not supported'')"
    using lookupPrice_failures [OF h, where L = sample_lib and currency = "''XYZ''"]
    by (simp add: sample_cq_def sample_gc_def sample_lib_def ToLower_ex ToUpper_ex)
  have b: "lookupPrice sample_lib ?none ''ETH'' ''USD'' = Inl (Errorf ''no results found'')"
    using lookupPrice_failures [OF h0, where L = sample_lib and currency = "''USD''"]
    by (simp add: sample_cq_def sample_gc_def)
  have c: "lookupPrice sample_lib ?cq ''ETH'' ''USD'' = Inr (eth_item [])"
    using lookupPrice_failures [OF h, where L = sample_lib and currency = "''USD''"]
    by (simp add: sample_cq_def sample_gc_def ToLower_ex)
  from a b c show ?thesis by (intro conjI)
qed

section \<open>What-if queries\<close>




text \<open>
  C3: \<open>ifIBought\<close> succeeds with \<open>(units, currentValue, h)\<close> exactly when the token
  resolves, the historical record of day 15 of the resolved month and year has market
  data whose price in the lower-case currency is \<open>h\<close>, and the market call answers a
  non-empty list, of which \<open>x\<close> is the first item; then \<open>units = amount / h\<close> and
  \<open>currentValue = units * CurrentPrice x\<close>. For the amount 100, the historical price 200
  and the current price 2000 the result is \<open>(1 / 2, 1000, 200)\<close>.
\<close>

theorem ifIBought_result:
  "(ifIBought L cq token currency year month amount = Inr (units, currentValue, h)
     \<longleftrightarrow> (\<exists>cid data md x xs.
           idMap cq (ToLower token) = Some cid
         \<and> CoinsIDHistory (gc cq) cid
             (''15-'' @ itoa (if month \<le> 0 \<or> 12 < month then now_Month L else month)
               @ ''-'' @ itoa year) False = Inr data
         \<and> MarketData data = Some md
         \<and> HistoryCurrentPrice md (ToLower currency) = Some h
         \<and> CoinsMarket (gc cq) (ToLower currency) [cid] ''market_cap_desc'' 250 1 False [''24h'']
             = Inr (x # xs)
         \<and> units = amount / h
         \<and> currentValue = units * CurrentPrice x))
   \<and> ifIBought sample_lib (sample_cq list date None) ''ETH'' ''USD'' 2018 0 100
       = Inr (1 / 2, 1000, 200)"
proof (rule conjI)
  show "ifIBought sample_lib (sample_cq list date None) ''ETH'' ''USD'' 2018 0 100
       = Inr (1 / 2, 1000, 200)"
    by (simp add: ifIBought_def lookupPrice_def sample_cq_def sample_gc_def sample_lib_def
        eth_item_def ToLower_ex Let_def)
next
  show "ifIBought L cq token currency year month amount = Inr (units, currentValue, h)
     \<longleftrightarrow> (\<exists>cid data md x xs.
           idMap cq (ToLower token) = Some cid
         \<and> CoinsIDHistory (gc cq) cid
             (''15-'' @ itoa (if month \<le> 0 \<or> 12 < month then now_Month L else month)
               @ ''-'' @ itoa year) False = Inr data
         \<and> MarketData data = Some md
         \<and> HistoryCurrentPrice md (ToLower currency) = Some h
         \<and> CoinsMarket (gc cq) (ToLower currency) [cid] ''market_cap_desc'' 250 1 False [''24h'']
             = Inr (x # xs)
         \<and> units = amount / h
         \<and> currentValue = units * CurrentPrice x)"
    by (auto simp: ifIBought_def lookupPrice_def Let_def
        split: option.splits sum.splits list.splits if_splits)
qed

text \<open>
  X2: when the current month is in 1 to 12, as \<open>time.Month\<close> is, \<open>ifIBought\<close> with a
  month outside 1 to 12 is \<open>ifIBought\<close> with the current month.
\<close>

theorem ifIBought_month_default:
  assumes "1 \<le> now_Month L \<and> now_Month L \<le> 12" and "month \<le> 0 \<or> 12 < month"
  shows "ifIBought L cq token currency year month amount
           = ifIBought L cq token currency year (now_Month L) amount"
  using assms by (simp add: ifIBought_def)

theorem ifIBought_month_default_witness:
  "(1 \<le> now_Month sample_lib \<and> now_Month sample_lib \<le> 12)
   \<and> ifIBought sample_lib (sample_cq (Inr listed) [] None) ''ETH'' ''USD'' 2018 2018 100
       = ifIBought sample_lib (sample_cq (Inr listed) [] None) ''ETH'' ''USD'' 2018 10 100"
proof -
  have h: "1 \<le> now_Month sample_lib \<and> now_Month sample_lib \<le> 12"
    by (simp add: sample_lib_def)
  have m: "(2018::int) \<le> 0 \<or> 12 < (2018::int)" by simp
  have n: "now_Month sample_lib = 10" by (simp add: sample_lib_def)
  from ifIBought_month_default [OF h m, of "sample_cq (Inr listed) [] None" "''ETH''" "''USD''" 2018 100]
  show ?thesis using h by (simp only: n simp_thms)
qed

section \<open>Composing the reply to a price query\<close>

text \<open>
  C8, as the claim states it, fails on a snapshot whose all-time-high date does not parse
  (here the empty string): \<open>format\<close> panics with the error of \<open>time.Parse\<close>, and
  \<open>queryMessage\<close>, which has no \<open>recover\<close>, panics with it instead of returning the
  fallback message. With a date that parses, the same query returns its text.
\<close>

theorem queryMessage_panics:
  "queryMessage sample_lib (sample_cq (Inr listed) [] None) ''ETH'' ''USD''
     = Inl (Foreign ''parsing time: cannot parse'' False)
   \<and> queryMessage sample_lib (sample_cq (Inr listed) ''2021-11-10T14:24:11Z'' None) ''ETH'' ''USD''
     = Inr ([], ''Ethereum ($ETH)'')"
  by (simp add: queryMessage_def format_def lookupPrice_def sample_cq_def sample_gc_def
      sample_lib_def eth_item_def ToLower_ex ToUpper_ex Let_def)

text \<open>
  X3: when the price is found and \<open>format\<close> returns, a failure of the template's
  construction or execution is logged and \<open>queryMessage\<close> returns
  "Cannot query CoinGecko API"; otherwise it returns the text written.
\<close>

theorem queryMessage_fallback:
  assumes "lookupPrice L cq ticker fiatCurrency = Inr p"
    and "format L fiatCurrency
           \<lparr>CoinsMarketItem = p, Price = [], PriceChangePercent = [], MarketCap = [],
            MarketCapPercent = [], High24 = [], Low24 = [], ATH = [], ATHDate = []\<rparr> = Inr t"
  shows "(\<forall>err. template_Parse L coinInfoFmt = Some err
            \<longrightarrow> queryMessage L cq ticker fiatCurrency
                  = Inr ([''cannot generate message template: '' @ Error err],
                         ''Cannot query CoinGecko API''))
    \<and> (\<forall>err. template_Parse L coinInfoFmt = None \<and> template_Execute L coinInfoFmt t = Inl err
            \<longrightarrow> queryMessage L cq ticker fiatCurrency
                  = Inr ([''cannot execute message template: '' @ Error err],
                         ''Cannot query CoinGecko API''))
    \<and> (\<forall>out. template_Parse L coinInfoFmt = None \<and> template_Execute L coinInfoFmt t = Inr out
            \<longrightarrow> queryMessage L cq ticker fiatCurrency = Inr ([], out))"
  using assms by (simp add: queryMessage_def)

theorem queryMessage_fallback_witness:
  "queryMessage (sample_lib\<lparr>template_Parse := (\<lambda>src. Some (Foreign ''unexpected EOF'' False))\<rparr>)
      (sample_cq (Inr listed) ''2021-11-10T14:24:11Z'' None) ''ETH'' ''USD''
     = Inr ([''cannot generate message template: unexpected EOF''], ''Cannot query CoinGecko API'')
   \<and> queryMessage (sample_lib\<lparr>template_Execute := (\<lambda>src t. Inl (Foreign ''short write'' False))\<rparr>)
      (sample_cq (Inr listed) ''2021-11-10T14:24:11Z'' None) ''ETH'' ''USD''
     = Inr ([''cannot execute message template: short write''], ''Cannot query CoinGecko API'')"
proof -
  let ?cq = "sample_cq (Inr listed) ''2021-11-10T14:24:11Z'' None"
  let ?p = "eth_item ''2021-11-10T14:24:11Z''"
  let ?t = "\<lparr>CoinsMarketItem = ?p\<lparr>Symbol := ''$ETH''\<rparr>, Price = ''$2,000.00'',
             PriceChangePercent = ''0.00%'', MarketCap = ''$0.00'', MarketCapPercent = ''0.00%'',
             High24 = ''$2,000.00'', Low24 = ''$2,000.00'', ATH = ''$2,000.00'',
             ATHDate = ''10 November 2021''\<rparr>"
  have p: "lookupPrice (sample_lib\<lparr>template_Parse := a\<rparr>) ?cq ''ETH'' ''USD'' = Inr ?p" for a
    by (simp add: lookupPrice_def sample_cq_def sample_gc_def ToLower_ex)
  have p': "lookupPrice (sample_lib\<lparr>template_Execute := a\<rparr>) ?cq ''ETH'' ''USD'' = Inr ?p" for a
    by (simp add: lookupPrice_def sample_cq_def sample_gc_def ToLower_ex)
  have f: "format (sample_lib\<lparr>template_Parse := a\<rparr>) ''USD''
           \<lparr>CoinsMarketItem = ?p, Price = [], PriceChangePercent = [], MarketCap = [],
            MarketCapPercent = [], High24 = [], Low24 = [], ATH = [], ATHDate = []\<rparr> = Inr ?t" for a
    by (simp add: format_def sample_lib_def eth_item_def ToUpper_ex Let_def)
  have f': "format (sample_lib\<lparr>template_Execute := a\<rparr>) ''USD''
           \<lparr>CoinsMarketItem = ?p, Price = [], PriceChangePercent = [], MarketCap = [],
            MarketCapPercent = [], High24 = [], Low24 = [], ATH = [], ATHDate = []\<rparr> = Inr ?t" for a
    by (simp add: format_def sample_lib_def eth_item_def ToUpper_ex Let_def)
  have a: "queryMessage (sample_lib\<lparr>template_Parse := (\<lambda>src. Some (Foreign ''unexpected EOF'' False))\<rparr>)
      ?cq ''ETH'' ''USD''
     = Inr ([''cannot generate message template: unexpected EOF''], ''Cannot query CoinGecko API'')"
    using queryMessage_fallback [OF p f] by simp
  have b: "queryMessage (sample_lib\<lparr>template_Execute := (\<lambda>src t. Inl (Foreign ''short write'' False))\<rparr>)
      ?cq ''ETH'' ''USD''
     = Inr ([''cannot execute message template: short write''], ''Cannot query CoinGecko API'')"
    using queryMessage_fallback [OF p' f'] by (simp add: sample_lib_def)
  from a b show ?thesis by (intro conjI)
qed

section \<open>The /whatif command\<close>

text \<open>
  C1, as the claim states it, fails: the first slot of the sentence is
  \<open>FormatMoneyInt(500)\<close>, whatever the amount. For the amount 100 the reply starts with
  "$500.00 worth of ETH".
\<close>

theorem whatif_reply_amount:
  "whatif_handler sample_lib (sample_cq (Inr listed) [] None) ''/whatif 100 ETH 2018''
     = Inr [''$500.00 worth of ETH in 2018 (priced at $200.00) are now worth $1,000.00 ''
            @ [CHR 0xF0, CHR 0x9F, CHR 0x98, CHR 0xB1]]"
  by (simp add: whatif_handler_def whatif_month_def ifIBought_def lookupPrice_def ifIHadFmt_def
      sample_cq_def sample_gc_def sample_lib_def eth_item_def defaultCurrency_def
      Fields_ex Atoi_ex ToLower_ex ToUpper_ex itoa_ex Let_def)

text \<open>
  C2, as the claim states it, fails: with four arguments the month is \<open>Atoi(f[2])\<close>, the
  year. For the fourth argument 3 the handler sends nothing for the month and calls
  \<open>ifIBought\<close> with the month 2018.
\<close>

theorem whatif_month_is_year:
  "whatif_month (tl (Fields ''/whatif 100 ETH 2018 3'')) = ([], 2018)
   \<and> whatif_handler sample_lib cq ''/whatif 100 ETH 2018 3''
       = (case ifIBought sample_lib cq ''ETH'' ''USD'' 2018 2018 100 of
            Inl err \<Rightarrow> Inr [Error err]
          | Inr (old, new, oldPrice) \<Rightarrow>
              Inr [ifIHadFmt ''$500.00'' ''ETH'' 2018
                     (FormatMoneyFloat64 sample_lib ''USD'' oldPrice)
                     (FormatMoneyFloat64 sample_lib ''USD'' new)])"
  by (simp add: whatif_handler_def whatif_month_def sample_lib_def defaultCurrency_def
      Fields_ex Atoi_ex ToUpper_ex itoa_ex Let_def split: sum.splits)

text \<open>
  C10, as the claim states it, fails, by the same \<open>Atoi(f[2])\<close>: the year has parsed
  once already, so with a fourth argument that is no integer the handler sends no
  "Malformed month" and the month is the year, not 0. The chat receives the one
  sentence.
\<close>

theorem whatif_malformed_month_silent:
  "whatif_month (tl (Fields ''/whatif 100 ETH 2018 abc'')) = ([], 2018)
   \<and> whatif_handler sample_lib (sample_cq (Inr listed) [] None) ''/whatif 100 ETH 2018 abc''
       = Inr [''$500.00 worth of ETH in 2018 (priced at $200.00) are now worth $1,000.00 ''
              @ [CHR 0xF0, CHR 0x9F, CHR 0x98, CHR 0xB1]]"
  by (simp add: whatif_handler_def whatif_month_def ifIBought_def lookupPrice_def ifIHadFmt_def
      sample_cq_def sample_gc_def sample_lib_def eth_item_def defaultCurrency_def
      Fields_ex Atoi_ex ToLower_ex ToUpper_ex itoa_ex Let_def)

end
